theory Spec2Isabelle
  imports Complex_Main "HOL-Library.AList" "HOL-Library.Sublist" "HOL-Library.Word"
begin

section \<open>The compression pipeline (withSource/main.py)\<close>

subsection \<open>Strings, file names and paths\<close>

text \<open>
  File names are strings. \<open>str.lower()\<close> and \<open>str.upper()\<close> are modelled on the ASCII
  letters; every other character is left as it is.
\<close>

definition lower_char :: "char \<Rightarrow> char" where
  "lower_char c =
     (case map_of (zip ''ABCDEFGHIJKLMNOPQRSTUVWXYZ'' ''abcdefghijklmnopqrstuvwxyz'') c of
        Some l \<Rightarrow> l
      | None \<Rightarrow> c)"

definition upper_char :: "char \<Rightarrow> char" where
  "upper_char c =
     (case map_of (zip ''abcdefghijklmnopqrstuvwxyz'' ''ABCDEFGHIJKLMNOPQRSTUVWXYZ'') c of
        Some u \<Rightarrow> u
      | None \<Rightarrow> c)"

definition lower :: "string \<Rightarrow> string" where
  "lower s = map lower_char s"

definition upper :: "string \<Rightarrow> string" where
  "upper s = map upper_char s"

text \<open>
  \<open>os.path.splitext\<close> on a file name (no separator in it): the extension starts at the
  last dot, unless only dots come before that dot, in which case there is no extension.
\<close>

definition splitext :: "string \<Rightarrow> string \<times> string" where
  "splitext p =
     (let after = takeWhile (\<lambda>c. c \<noteq> CHR ''.'') (rev p) in
      if length after = length p then (p, [])
      else
        let dotIndex = length p - length after - 1 in
        if \<exists>c \<in> set (take dotIndex p). c \<noteq> CHR ''.''
        then (take dotIndex p, drop dotIndex p)
        else (p, []))"

text \<open>
  A path is the list of its components, \<open>a/b/c.png\<close> being \<open>[a, b, c.png]\<close>; the
  relative path \<open>.\<close> is the empty list. \<open>os.path.join\<close> is append.
\<close>

type_synonym path = "string list"

definition dirname :: "path \<Rightarrow> path" where
  "dirname p = butlast p"

definition basename :: "path \<Rightarrow> string" where
  "basename p = (if p = [] then [] else last p)"

definition relpath :: "path \<Rightarrow> path \<Rightarrow> path" where
  "relpath p start =
     (let i = length (longest_common_prefix p start) in
      replicate (length start - i) ''..'' @ drop i p)"

text \<open>\<open>path + suffix\<close>: string concatenation onto the last component.\<close>

definition add_suffix :: "path \<Rightarrow> string \<Rightarrow> path" where
  "add_suffix p suf = (if p = [] then [suf] else butlast p @ [last p @ suf])"

subsection \<open>Configuration\<close>

record config =
  TARGET_FORMAT :: "string option"
  QUALITY :: int
  THRESHOLD :: rat
  AGGRESSIVE_DROP :: int
  SOURCE_DIR :: string
  OUTPUT_DIR :: string

text \<open>
  The module constants. \<open>THRESHOLD = 1.2 * 1024 * 1024\<close> is a float just below
  \<open>1258291.2\<close>; it compares with an integer file size as that rational does.
\<close>

definition source_config :: config where
  "source_config =
     \<lparr>TARGET_FORMAT = None, QUALITY = 85, THRESHOLD = 12 / 10 * 1024 * 1024,
      AGGRESSIVE_DROP = 20, SOURCE_DIR = ''sourceImages'', OUTPUT_DIR = ''compressedImages''\<rparr>"

text \<open>\<open>if TARGET_FORMAT:\<close> is false for \<open>None\<close> and for the empty string.\<close>

definition configured :: "string option \<Rightarrow> string option" where
  "configured tf = (case tf of None \<Rightarrow> None | Some t \<Rightarrow> if t = [] then None else Some t)"

definition IMAGE_EXTENSIONS :: "string set" where
  "IMAGE_EXTENSIONS = {''.jpg'', ''.jpeg'', ''.png'', ''.bmp'', ''.gif'', ''.tiff'', ''.webp''}"

definition EXT_TO_FORMAT :: "string \<rightharpoonup> string" where
  "EXT_TO_FORMAT =
     map_of [(''.jpg'', ''JPEG''), (''.jpeg'', ''JPEG''), (''.png'', ''PNG''),
             (''.bmp'', ''BMP''), (''.gif'', ''GIF''), (''.tiff'', ''TIFF''),
             (''.webp'', ''WEBP'')]"

subsection \<open>Files, log records and the state\<close>

type_synonym bytes = "8 word list"

record regfile =
  content :: bytes
  mtime :: nat

datatype error =
    FileNotFoundError path
  | FileExistsError path
  | NotADirectoryError path
  | IsADirectoryError path
  | SameFileError path path
  | UnidentifiedImageError
  | ValueError string
  | EncodeError
  | RequestException

datatype level = INFO | WARNING | ERROR

datatype message =
    Applying_aggressive_quality int int
  | Compressed_and_saved path nat nat
  | Skipped_compression path nat nat
  | Failed_to_process path error
  | Copied_file path path
  | Source_directory_not_found string
  | No_images_found string
  | Found_files nat
  | All_files_processed
  | Saved_image path
  | Failed_to_process_image_from string error

text \<open>
  The state the program acts on: the regular files by path (an association list, whose
  order stands for the order in which \<open>os.walk\<close> lists them), the directories, the log,
  and the clock that stamps newly written files. Paths are relative to the working
  directory, which exists.
\<close>

record fsys =
  files :: "(path \<times> regfile) list"
  dirs :: "path list"
  log :: "(level \<times> message) list"
  now :: nat

definition logging :: "level \<Rightarrow> message \<Rightarrow> fsys \<Rightarrow> fsys" where
  "logging l m s = s\<lparr>log := log s @ [(l, m)]\<rparr>"

definition lookup :: "fsys \<Rightarrow> path \<Rightarrow> regfile option" where
  "lookup s p = map_of (files s) p"

definition isdir :: "fsys \<Rightarrow> path \<Rightarrow> bool" where
  "isdir s p = (p \<in> set (dirs s))"

definition write_file :: "path \<Rightarrow> regfile \<Rightarrow> fsys \<Rightarrow> fsys" where
  "write_file p f s = s\<lparr>files := AList.update p f (files s)\<rparr>"

text \<open>
  What stops a regular file from being created or replaced at \<open>p\<close>, as \<open>open(p, "wb")\<close>
  and \<open>os.replace(_, p)\<close> report it: \<open>p\<close> is a directory, or the directory that should
  hold it is a regular file or is missing.
\<close>

definition write_error :: "fsys \<Rightarrow> path \<Rightarrow> error option" where
  "write_error s p =
     (if p = [] then Some (FileNotFoundError p)
      else if isdir s p then Some (IsADirectoryError p)
      else if dirname p = [] \<or> isdir s (dirname p) then None
      else if \<exists>d \<in> set (prefixes (dirname p)). lookup s d \<noteq> None
      then Some (NotADirectoryError p)
      else Some (FileNotFoundError p))"

text \<open>What stops a regular file from being read at \<open>p\<close>.\<close>

definition read_error :: "fsys \<Rightarrow> path \<Rightarrow> error" where
  "read_error s p = (if isdir s p then IsADirectoryError p else FileNotFoundError p)"

text \<open>\<open>os.path.getsize\<close>; the program calls it on regular files only.\<close>

definition getsize :: "fsys \<Rightarrow> path \<Rightarrow> error + nat" where
  "getsize s p =
     (case lookup s p of None \<Rightarrow> Inl (FileNotFoundError p) | Some f \<Rightarrow> Inr (length (content f)))"

text \<open>
  \<open>os.makedirs(p, exist_ok=True)\<close>: \<open>p\<close> and its missing parents. An existing directory
  is forgiven; a regular file at \<open>p\<close> or at a parent of \<open>p\<close> is not.
\<close>

definition makedirs :: "path \<Rightarrow> fsys \<Rightarrow> error + fsys" where
  "makedirs p s =
     (if p = [] then Inl (FileNotFoundError [])
      else if lookup s p \<noteq> None then Inl (FileExistsError p)
      else if \<exists>d \<in> set (prefixes p). lookup s d \<noteq> None then Inl (NotADirectoryError p)
      else Inr (s\<lparr>dirs := dirs s @ filter (\<lambda>d. d \<noteq> [] \<and> d \<notin> set (dirs s)) (prefixes p)\<rparr>))"

text \<open>\<open>os.replace(src, dst)\<close>: one rename; \<open>dst\<close> then holds the file and \<open>src\<close> is gone.\<close>

definition os_replace :: "path \<Rightarrow> path \<Rightarrow> fsys \<Rightarrow> error + fsys" where
  "os_replace src dst s =
     (case lookup s src of
        None \<Rightarrow> Inl (read_error s src)
      | Some f \<Rightarrow>
          if src = dst then Inr s
          else
            (case write_error s dst of
               Some e \<Rightarrow> Inl e
             | None \<Rightarrow> Inr (s\<lparr>files := AList.delete src (AList.update dst f (files s))\<rparr>)))"

text \<open>
  \<open>shutil.copy2(src, dst)\<close>: the bytes and the metadata of \<open>src\<close>. When \<open>dst\<close> is a
  directory the copy goes inside it, under the name of \<open>src\<close>.
\<close>

definition copy2_target :: "fsys \<Rightarrow> path \<Rightarrow> path \<Rightarrow> path" where
  "copy2_target s src dst = (if isdir s dst then dst @ [basename src] else dst)"

definition copy2 :: "path \<Rightarrow> path \<Rightarrow> fsys \<Rightarrow> error + fsys" where
  "copy2 src dst s =
     (case lookup s src of
        None \<Rightarrow> Inl (read_error s src)
      | Some f \<Rightarrow>
          if src = copy2_target s src dst then Inl (SameFileError src (copy2_target s src dst))
          else
            (case write_error s (copy2_target s src dst) of
               Some e \<Rightarrow> Inl e
             | None \<Rightarrow> Inr (write_file (copy2_target s src dst) f s)))"

definition os_remove :: "path \<Rightarrow> fsys \<Rightarrow> error + fsys" where
  "os_remove p s =
     (case lookup s p of
        None \<Rightarrow> Inl (read_error s p)
      | Some f \<Rightarrow> Inr (s\<lparr>files := AList.delete p (files s)\<rparr>))"

subsection \<open>The image library\<close>

datatype kwarg = quality int | optimize bool

text \<open>
  What the encoder of \<open>img.save(path, fmt, **kwargs)\<close> can do: give the encoded bytes
  (\<open>Saved\<close>), raise before the file is opened (\<open>Raised None\<close>: the image does not load, or
  the format is unknown), or raise after it has written some bytes (\<open>Raised (Some bs)\<close>).
\<close>

datatype save_result = Saved bytes | Raised "bytes option"

text \<open>The library is a parameter: how it decodes, and what encoding an image gives.\<close>

record 'img codec =
  decode :: "bytes \<Rightarrow> 'img option"
  encode :: "'img \<Rightarrow> string \<Rightarrow> kwarg list \<Rightarrow> save_result"

definition Image_open :: "'img codec \<Rightarrow> fsys \<Rightarrow> path \<Rightarrow> error + 'img" where
  "Image_open c s p =
     (case lookup s p of
        None \<Rightarrow> Inl (read_error s p)
      | Some f \<Rightarrow>
          (case decode c (content f) of None \<Rightarrow> Inl UnidentifiedImageError | Some img \<Rightarrow> Inr img))"

text \<open>
  \<open>img.save\<close> opens the file for writing, which empties a file that was there, and
  encodes into it. When the encoder raises, the library removes the file if this call
  created it; a file that was there before stays, holding what had been written.
\<close>

definition img_save ::
  "'img codec \<Rightarrow> 'img \<Rightarrow> path \<Rightarrow> string \<Rightarrow> kwarg list \<Rightarrow> fsys \<Rightarrow> (error + unit) \<times> fsys" where
  "img_save c img p fmt kw s =
     (case encode c img fmt kw of
        Raised None \<Rightarrow> (Inl EncodeError, s)
      | Raised (Some bs) \<Rightarrow>
          (case write_error s p of
             Some e \<Rightarrow> (Inl e, s)
           | None \<Rightarrow>
               if lookup s p = None then (Inl EncodeError, s)
               else (Inl EncodeError, write_file p \<lparr>content = bs, mtime = now s\<rparr> s))
      | Saved bs \<Rightarrow>
          (case write_error s p of
             Some e \<Rightarrow> (Inl e, s)
           | None \<Rightarrow> (Inr (), write_file p \<lparr>content = bs, mtime = now s\<rparr> s)))"

subsection \<open>compress_image_file\<close>

text \<open>Lines 52 to 59: the save format and the extension.\<close>

definition resolve_format :: "config \<Rightarrow> path \<Rightarrow> error + (string \<times> string)" where
  "resolve_format cfg input_path =
     (case configured (TARGET_FORMAT cfg) of
        Some tf \<Rightarrow> Inr (upper tf, ''.'' @ lower tf)
      | None \<Rightarrow>
          (let out_ext = lower (snd (splitext (basename input_path))) in
           case EXT_TO_FORMAT out_ext of
             None \<Rightarrow> Inl (ValueError (''Unsupported output format '' @ out_ext))
           | Some fmt \<Rightarrow> Inr (fmt, out_ext)))"

text \<open>Lines 62 to 76: the save parameters, and the log record of the aggressive tier.\<close>

definition save_kwargs :: "config \<Rightarrow> string \<Rightarrow> nat \<Rightarrow> fsys \<Rightarrow> kwarg list \<times> fsys" where
  "save_kwargs cfg fmt orig_size s =
     (if fmt = ''WEBP'' \<or> fmt = ''JPEG'' then
        (if of_nat orig_size > THRESHOLD cfg then
           (let q = max 1 (QUALITY cfg - AGGRESSIVE_DROP cfg) in
            ([quality q],
             logging INFO (Applying_aggressive_quality q \<lfloor>THRESHOLD cfg / 1024\<rfloor>) s))
         else ([quality (QUALITY cfg)], s))
      else if fmt = ''PNG'' then ([optimize True], s)
      else ([], s))"

text \<open>Lines 82 to 94: compare the sizes and keep one of the two files.\<close>

definition keep_smaller :: "path \<Rightarrow> path \<Rightarrow> path \<Rightarrow> nat \<Rightarrow> fsys \<Rightarrow> (error + unit) \<times> fsys" where
  "keep_smaller input_path output_path temp_path orig_size s =
     (case getsize s temp_path of
        Inl e \<Rightarrow> (Inl e, s)
      | Inr comp_size \<Rightarrow>
          if comp_size < orig_size then
            (case os_replace temp_path output_path s of
               Inl e \<Rightarrow> (Inl e, s)
             | Inr s1 \<Rightarrow>
                 (Inr (),
                  logging INFO
                    (Compressed_and_saved output_path (orig_size div 1024) (comp_size div 1024)) s1))
          else
            (case copy2 input_path output_path s of
               Inl e \<Rightarrow> (Inl e, s)
             | Inr s1 \<Rightarrow>
                 (case os_remove temp_path s1 of
                    Inl e \<Rightarrow> (Inl e, s1)
                  | Inr s2 \<Rightarrow>
                      (Inr (),
                       logging WARNING
                         (Skipped_compression input_path (comp_size div 1024) (orig_size div 1024))
                         s2))))"

text \<open>The body of the \<open>try\<close>: the exception raised, if any, and the state it leaves.\<close>

definition try_compress ::
  "config \<Rightarrow> 'img codec \<Rightarrow> path \<Rightarrow> path \<Rightarrow> fsys \<Rightarrow> (error + unit) \<times> fsys" where
  "try_compress cfg c input_path output_path s =
     (case Image_open c s input_path of
        Inl e \<Rightarrow> (Inl e, s)
      | Inr img \<Rightarrow>
          (case makedirs (dirname output_path) s of
             Inl e \<Rightarrow> (Inl e, s)
           | Inr s1 \<Rightarrow>
               (case resolve_format cfg input_path of
                  Inl e \<Rightarrow> (Inl e, s1)
                | Inr (fmt, out_ext) \<Rightarrow>
                    (case getsize s1 input_path of
                       Inl e \<Rightarrow> (Inl e, s1)
                     | Inr orig_size \<Rightarrow>
                         (let (kw, s2) = save_kwargs cfg fmt orig_size s1;
                              temp_path = add_suffix output_path ''.tmp''
                          in case img_save c img temp_path fmt kw s2 of
                               (Inl e, s3) \<Rightarrow> (Inl e, s3)
                             | (Inr u, s3) \<Rightarrow>
                                 keep_smaller input_path output_path temp_path orig_size s3)))))"

definition compress_image_file :: "config \<Rightarrow> 'img codec \<Rightarrow> path \<Rightarrow> path \<Rightarrow> fsys \<Rightarrow> fsys" where
  "compress_image_file cfg c input_path output_path s =
     (case try_compress cfg c input_path output_path s of
        (Inl e, s1) \<Rightarrow> logging ERROR (Failed_to_process input_path e) s1
      | (Inr u, s1) \<Rightarrow> s1)"

subsection \<open>The tree walker\<close>

text \<open>\<open>os.walk\<close> from \<open>root_dir\<close>: every file below it.\<close>

definition gather_all_files :: "path \<Rightarrow> fsys \<Rightarrow> path list" where
  "gather_all_files root_dir s = filter (strict_prefix root_dir) (map fst (files s))"

text \<open>Lines 123 to 137: where a source file goes.\<close>

definition dest_dir :: "config \<Rightarrow> path \<Rightarrow> path" where
  "dest_dir cfg src = OUTPUT_DIR cfg # relpath (dirname src) [SOURCE_DIR cfg]"

definition is_image :: "path \<Rightarrow> bool" where
  "is_image src = (lower (snd (splitext (basename src))) \<in> IMAGE_EXTENSIONS)"

definition dest_path :: "config \<Rightarrow> path \<Rightarrow> path" where
  "dest_path cfg src =
     (let (base, ext) = splitext (basename src);
          ext_lower = lower ext
      in if ext_lower \<in> IMAGE_EXTENSIONS then
           (let out_ext = (case configured (TARGET_FORMAT cfg) of
                             Some tf \<Rightarrow> ''.'' @ lower tf
                           | None \<Rightarrow> ext_lower)
            in dest_dir cfg src @ [base @ out_ext])
         else dest_dir cfg src @ [base @ ext])"

text \<open>
  The body of the loop of \<open>main\<close>. Only \<open>compress_image_file\<close> catches its exceptions: one
  raised by \<open>os.makedirs\<close> or \<open>shutil.copy2\<close> here ends the run.
\<close>

definition process_file :: "config \<Rightarrow> 'img codec \<Rightarrow> path \<Rightarrow> fsys \<Rightarrow> error option \<times> fsys" where
  "process_file cfg c src s =
     (case makedirs (dest_dir cfg src) s of
        Inl e \<Rightarrow> (Some e, s)
      | Inr s1 \<Rightarrow>
          if is_image src then
            (None, compress_image_file cfg c src (dest_path cfg src) s1)
          else
            (case copy2 src (dest_path cfg src) s1 of
               Inl e \<Rightarrow> (Some e, s1)
             | Inr s2 \<Rightarrow> (None, logging INFO (Copied_file src (dest_path cfg src)) s2)))"

fun process_all :: "config \<Rightarrow> 'img codec \<Rightarrow> path list \<Rightarrow> fsys \<Rightarrow> error option \<times> fsys" where
  "process_all cfg c [] s = (None, s)"
| "process_all cfg c (src # rest) s =
     (case process_file cfg c src s of
        (Some e, s1) \<Rightarrow> (Some e, s1)
      | (None, s1) \<Rightarrow> process_all cfg c rest s1)"

definition main :: "config \<Rightarrow> 'img codec \<Rightarrow> fsys \<Rightarrow> error option \<times> fsys" where
  "main cfg c s =
     (if \<not> isdir s [SOURCE_DIR cfg] then
        (None, logging ERROR (Source_directory_not_found (SOURCE_DIR cfg)) s)
      else
        (let images = gather_all_files [SOURCE_DIR cfg] s in
         if images = [] then (None, logging ERROR (No_images_found (SOURCE_DIR cfg)) s)
         else
           (case process_all cfg c images (logging INFO (Found_files (length images)) s) of
              (Some e, s1) \<Rightarrow> (Some e, s1)
            | (None, s1) \<Rightarrow> (None, logging INFO All_files_processed s1))))"

text \<open>The files below the output root.\<close>

definition output_files :: "config \<Rightarrow> fsys \<Rightarrow> path list" where
  "output_files cfg s = gather_all_files [OUTPUT_DIR cfg] s"

section \<open>The download pipeline (withLinks/main.py)\<close>

subsection \<open>download_and_compress_image\<close>

text \<open>The module constant of the download pipeline.\<close>

definition links_TARGET_FORMAT :: string where
  "links_TARGET_FORMAT = ''webp''"

text \<open>
  The network is a parameter: \<open>fetch url\<close> is the body that \<open>requests.get\<close> streams into
  the buffer, or \<open>None\<close> when the request or \<open>raise_for_status\<close> raises.
\<close>

definition try_download ::
  "string \<Rightarrow> 'img codec \<Rightarrow> (string \<Rightarrow> bytes option) \<Rightarrow> string \<Rightarrow> path \<Rightarrow> fsys \<Rightarrow>
   (error + unit) \<times> fsys" where
  "try_download target_format c fetch url save_path s =
     (case fetch url of
        None \<Rightarrow> (Inl RequestException, s)
      | Some buffer \<Rightarrow>
          (case decode c buffer of
             None \<Rightarrow> (Inl UnidentifiedImageError, s)
           | Some img \<Rightarrow>
               (case (if lower target_format = ''webp'' then
                        img_save c img save_path ''WEBP'' [quality 95] s
                      else if lower target_format = ''png'' then
                        img_save c img save_path ''PNG'' [optimize True] s
                      else (Inl (ValueError ''Unsupported TARGET_FORMAT''), s)) of
                  (Inl e, s1) \<Rightarrow> (Inl e, s1)
                | (Inr u, s1) \<Rightarrow> (Inr (), logging INFO (Saved_image save_path) s1))))"

definition download_and_compress_image ::
  "string \<Rightarrow> 'img codec \<Rightarrow> (string \<Rightarrow> bytes option) \<Rightarrow> string \<Rightarrow> path \<Rightarrow> fsys \<Rightarrow> fsys" where
  "download_and_compress_image target_format c fetch url save_path s =
     (case try_download target_format c fetch url save_path s of
        (Inl e, s1) \<Rightarrow> logging ERROR (Failed_to_process_image_from url e) s1
      | (Inr u, s1) \<Rightarrow> s1)"

subsection \<open>Text and regular expressions\<close>

text \<open>
  A Python \<open>str\<close> is a sequence of code points. \<open>str s\<close> is the text of an ASCII string.
\<close>

type_synonym ustr = "nat list"

definition str :: "string \<Rightarrow> ustr" where
  "str s = map of_char s"

text \<open>
  \<open>\s\<close> of a \<open>str\<close> pattern, and what \<open>str.strip()\<close> removes: the Unicode whitespace.
\<close>

definition is_space :: "nat \<Rightarrow> bool" where
  "is_space c =
     ((9 \<le> c \<and> c \<le> 13) \<or> (28 \<le> c \<and> c \<le> 32) \<or> c = 133 \<or> c = 160 \<or> c = 5760 \<or>
      (8192 \<le> c \<and> c \<le> 8202) \<or> c = 8232 \<or> c = 8233 \<or> c = 8239 \<or> c = 8287 \<or> c = 12288)"

text \<open>
  \<open>\w\<close> on the ASCII range. The one \<open>\b\<close> of the program stands between a quote and
  the \<open>h\<close> that must follow it, so no other character's class decides a match.
\<close>

definition is_word :: "nat \<Rightarrow> bool" where
  "is_word c = ((48 \<le> c \<and> c \<le> 57) \<or> (65 \<le> c \<and> c \<le> 90) \<or> c = 95 \<or> (97 \<le> c \<and> c \<le> 122))"

definition strip :: "ustr \<Rightarrow> ustr" where
  "strip t = rev (dropWhile is_space (rev (dropWhile is_space t)))"

text \<open>
  The pieces of the two patterns: a literal, a class, \<open>^\<close> under MULTILINE, \<open>\b\<close>, a
  class repeated (greedy or lazy, with its least and greatest count), and the two ends
  of a group.
\<close>

datatype atom =
    Chr nat
  | Cls "nat \<Rightarrow> bool"
  | Bol
  | WordB
  | Rep bool nat "nat option" "nat \<Rightarrow> bool"
  | GroupStart nat
  | GroupEnd nat

type_synonym captures = "((nat \<times> bool) \<times> ustr) list"

text \<open>
  The backtracking matcher of \<open>re\<close>, anchored where it stands: \<open>run pattern prev rest caps\<close>
  matches the atoms in order against \<open>rest\<close>, \<open>prev\<close> being the character before it, and
  gives the first match in the order in which \<open>re\<close> tries them: a greedy repetition takes
  one more character before it tries to stop, a lazy one stops before it takes more.
\<close>

fun run :: "atom list \<Rightarrow> nat option \<Rightarrow> ustr \<Rightarrow> captures \<Rightarrow> (nat option \<times> ustr \<times> captures) option" where
  "run [] p cs caps = Some (p, cs, caps)"
| "run (Chr c # as) p cs caps =
     (case cs of [] \<Rightarrow> None | x # xs \<Rightarrow> if x = c then run as (Some x) xs caps else None)"
| "run (Cls f # as) p cs caps =
     (case cs of [] \<Rightarrow> None | x # xs \<Rightarrow> if f x then run as (Some x) xs caps else None)"
| "run (Bol # as) p cs caps =
     (if p = None \<or> p = Some 10 then run as p cs caps else None)"
| "run (WordB # as) p cs caps =
     (if (case p of None \<Rightarrow> False | Some x \<Rightarrow> is_word x) \<noteq>
         (case cs of [] \<Rightarrow> False | x # xs \<Rightarrow> is_word x)
      then run as p cs caps else None)"
| "run (GroupStart n # as) p cs caps = run as p cs (((n, False), cs) # caps)"
| "run (GroupEnd n # as) p cs caps = run as p cs (((n, True), cs) # caps)"
| "run (Rep greedy mn mx f # as) p cs caps =
     (if greedy then
        (case (case cs of
                 [] \<Rightarrow> None
               | x # xs \<Rightarrow>
                   if f x \<and> mx \<noteq> Some 0
                   then run (Rep greedy (mn - 1) (map_option (\<lambda>m. m - 1) mx) f # as) (Some x) xs caps
                   else None) of
           Some r \<Rightarrow> Some r
         | None \<Rightarrow> if mn = 0 then run as p cs caps else None)
      else
        (case (if mn = 0 then run as p cs caps else None) of
           Some r \<Rightarrow> Some r
         | None \<Rightarrow>
             (case cs of
                [] \<Rightarrow> None
              | x # xs \<Rightarrow>
                  if f x \<and> mx \<noteq> Some 0
                  then run (Rep greedy (mn - 1) (map_option (\<lambda>m. m - 1) mx) f # as) (Some x) xs caps
                  else None)))"

text \<open>The text of group \<open>n\<close>: what lies between its two ends.\<close>

definition group :: "nat \<Rightarrow> captures \<Rightarrow> ustr" where
  "group n caps =
     (case (map_of caps (n, False), map_of caps (n, True)) of
        (Some a, Some b) \<Rightarrow> take (length a - length b) a
      | _ \<Rightarrow> [])"

text \<open>
  \<open>pattern.finditer(text)\<close>: the matches from left to right, each search starting where
  the last match ended. Neither pattern of the program matches the empty string; after
  an empty match the search moves on by one character.
\<close>

function finditer :: "atom list \<Rightarrow> nat option \<Rightarrow> ustr \<Rightarrow> captures list" where
  "finditer pat p cs =
     (case run pat p cs [] of
        Some (p1, rest, caps) \<Rightarrow>
          if length rest < length cs then caps # finditer pat p1 rest
          else (case cs of [] \<Rightarrow> [caps] | x # xs \<Rightarrow> caps # finditer pat (Some x) xs)
      | None \<Rightarrow> (case cs of [] \<Rightarrow> [] | x # xs \<Rightarrow> finditer pat (Some x) xs))"
  by pat_completeness auto
termination
  by (relation "measure (\<lambda>(pat, p, cs). length cs)") auto

text \<open>The pattern of line 36, compiled with DOTALL and MULTILINE.\<close>

definition block_pattern :: "atom list" where
  "block_pattern =
     [Bol, GroupStart 1, Rep True 1 None (\<lambda>c. c \<noteq> 10), GroupEnd 1,
      Rep True 0 None is_space, Chr 10, Rep True 0 None is_space,
      GroupStart 2, Chr 91, Rep False 0 None (\<lambda>c. True), Chr 93, GroupEnd 2]"

text \<open>
  The pattern of line 43: an opening quote (8220 or 34), \<open>\bhttps?://\<close>, characters other
  than 34 and 8221, and a closing quote (8221 or 34).
\<close>

definition url_pattern :: "atom list" where
  "url_pattern =
     [Cls (\<lambda>c. c = 8220 \<or> c = 34), GroupStart 1, WordB,
      Chr 104, Chr 116, Chr 116, Chr 112, Rep True 0 (Some 1) (\<lambda>c. c = 115),
      Chr 58, Chr 47, Chr 47, Rep True 1 None (\<lambda>c. c \<noteq> 34 \<and> c \<noteq> 8221), GroupEnd 1,
      Cls (\<lambda>c. c = 8221 \<or> c = 34)]"

definition findall_urls :: "ustr \<Rightarrow> ustr list" where
  "findall_urls array_text = map (group 1) (finditer url_pattern None array_text)"

subsection \<open>read_docx_data\<close>

text \<open>What each match of the loop of line 39 gives: the category and its URLs.\<close>

definition extract_blocks :: "ustr \<Rightarrow> (ustr \<times> ustr list) list" where
  "extract_blocks full_text =
     map (\<lambda>m. (strip (group 1 m), findall_urls (group 2 m)))
       (finditer block_pattern None full_text)"

text \<open>
  The body of the loop: \<open>data\<close> is a dictionary in insertion order, and the log grows by
  one record.
\<close>

datatype extract_message = Extracted_URLs nat ustr | No_URLs_found ustr

definition store_block ::
  "(ustr \<times> ustr list) list \<times> (level \<times> extract_message) list \<Rightarrow> ustr \<times> ustr list \<Rightarrow>
   (ustr \<times> ustr list) list \<times> (level \<times> extract_message) list" where
  "store_block acc m =
     (case (acc, m) of
        ((data, lg), (category, urls)) \<Rightarrow>
          if urls \<noteq> [] then
            (AList.update category urls data, lg @ [(INFO, Extracted_URLs (length urls) category)])
          else (data, lg @ [(WARNING, No_URLs_found category)]))"

text \<open>
  The document is the list of the texts of its paragraphs; \<open>full_text\<close> joins them with
  newlines.
\<close>

fun join_lines :: "ustr list \<Rightarrow> ustr" where
  "join_lines [] = []"
| "join_lines [t] = t"
| "join_lines (t # ts) = t @ [10] @ join_lines ts"

definition read_docx_data ::
  "ustr list \<Rightarrow> (ustr \<times> ustr list) list \<times> (level \<times> extract_message) list" where
  "read_docx_data paragraphs =
     foldl store_block ([], []) (extract_blocks (join_lines paragraphs))"


subsection \<open>Well-formed documents\<close>

text \<open>
  A quoted URL of an array: the text before it, its opening quote, the URL and its closing
  quote. In a well-formed item the text before the URL holds no opening quote and no
  \<open>]\<close>, the quotes are straight or curly ones, and the URL starts with \<open>http://\<close> or
  \<open>https://\<close>, goes on after that, and holds no closing quote and no \<open>]\<close>.
\<close>

type_synonym item = "ustr \<times> nat \<times> ustr \<times> nat"

definition render_item :: "item \<Rightarrow> ustr" where
  "render_item i = (case i of (sep, oq, url, cq) \<Rightarrow> sep @ [oq] @ url @ [cq])"

definition url_of :: "item \<Rightarrow> ustr" where
  "url_of i = (case i of (sep, oq, url, cq) \<Rightarrow> url)"

definition wf_item :: "item \<Rightarrow> bool" where
  "wf_item i =
     (case i of
        (sep, oq, url, cq) \<Rightarrow>
          (\<forall>c \<in> set sep. c \<noteq> 34 \<and> c \<noteq> 8220 \<and> c \<noteq> 93) \<and>
          (oq = 34 \<or> oq = 8220) \<and> (cq = 34 \<or> cq = 8221) \<and>
          ((take 7 url = str ''http://'' \<and> 7 < length url) \<or>
           (take 8 url = str ''https://'' \<and> 8 < length url)) \<and>
          (\<forall>c \<in> set url. c \<noteq> 34 \<and> c \<noteq> 8221 \<and> c \<noteq> 93))"

text \<open>
  A category block: the category line, a newline, and the bracketed array of its items,
  with the text between the last item and the closing bracket.
\<close>

record block =
  category :: ustr
  items :: "item list"
  tail :: ustr

definition render_array :: "block \<Rightarrow> ustr" where
  "render_array b = [91] @ concat (map render_item (items b)) @ tail b @ [93]"

definition render_block :: "block \<Rightarrow> ustr" where
  "render_block b = category b @ [10] @ render_array b"

definition wf_block :: "block \<Rightarrow> bool" where
  "wf_block b =
     (category b \<noteq> [] \<and> 10 \<notin> set (category b) \<and> (\<forall>i \<in> set (items b). wf_item i) \<and>
      (\<forall>c \<in> set (tail b). c \<noteq> 34 \<and> c \<noteq> 8220 \<and> c \<noteq> 93))"

section \<open>Notions used to state the claims\<close>

text \<open>
  Whether \<open>compress_image_file\<close> gets an encoding of \<open>src\<close>: the file is there, it
  decodes, a format is resolved and the encoder returns.
\<close>

definition encodable :: "config \<Rightarrow> 'img codec \<Rightarrow> fsys \<Rightarrow> path \<Rightarrow> bool" where
  "encodable cfg c s src =
     (case lookup s src of
        None \<Rightarrow> False
      | Some f \<Rightarrow>
          (case decode c (content f) of
             None \<Rightarrow> False
           | Some img \<Rightarrow>
               (case resolve_format cfg src of
                  Inl e \<Rightarrow> False
                | Inr (fmt, ext) \<Rightarrow>
                    (case encode c img fmt (fst (save_kwargs cfg fmt (length (content f)) s)) of
                       Saved bs \<Rightarrow> True
                     | Raised r \<Rightarrow> False))))"

text \<open>No path is listed twice among the files.\<close>

definition wf_files :: "fsys \<Rightarrow> bool" where
  "wf_files s = distinct (map fst (files s))"

text \<open>
  The output root is fresh: no regular file at it or below it, and no directory below it.
\<close>

definition fresh_output :: "config \<Rightarrow> fsys \<Rightarrow> bool" where
  "fresh_output cfg s =
     ((\<forall>p \<in> set (map fst (files s)). \<not> prefix [OUTPUT_DIR cfg] p) \<and>
      (\<forall>d \<in> set (dirs s). \<not> strict_prefix [OUTPUT_DIR cfg] d))"

text \<open>
  The destinations of the source files \<open>srcs\<close> do not clash: no two files share a
  destination, no destination is a directory on the way to another destination, and the
  temporary path of an image is neither a destination nor such a directory.
\<close>

definition no_clash :: "config \<Rightarrow> path list \<Rightarrow> bool" where
  "no_clash cfg srcs =
     (distinct (map (dest_path cfg) srcs) \<and>
      (\<forall>x \<in> set srcs. \<forall>y \<in> set srcs.
         \<not> prefix (dest_path cfg x) (dest_dir cfg y) \<and>
         (is_image x \<longrightarrow>
            add_suffix (dest_path cfg x) ''.tmp'' \<noteq> dest_path cfg y \<and>
            \<not> prefix (add_suffix (dest_path cfg x) ''.tmp'') (dest_dir cfg y))))"

text \<open>The source files that leave a file in the output tree.\<close>

definition leaves_file :: "config \<Rightarrow> 'img codec \<Rightarrow> fsys \<Rightarrow> path \<Rightarrow> bool" where
  "leaves_file cfg c s src = (\<not> is_image src \<or> encodable cfg c s src)"

subsection \<open>Example inputs\<close>

text \<open>
  Three image libraries over images that are their own bytes: one whose encoding is
  shorter than the image, one whose encoding is longer, and one whose encoder raises
  after it has written a byte.
\<close>

definition truncating_codec :: "bytes codec" where
  "truncating_codec =
     \<lparr>decode = (\<lambda>b. if b = [] then None else Some b),
      encode = (\<lambda>img fmt kw. Saved (take 1 img))\<rparr>"

definition padding_codec :: "bytes codec" where
  "padding_codec =
     \<lparr>decode = (\<lambda>b. if b = [] then None else Some b),
      encode = (\<lambda>img fmt kw. Saved (img @ [0, 0]))\<rparr>"

definition failing_codec :: "bytes codec" where
  "failing_codec =
     \<lparr>decode = (\<lambda>b. if b = [] then None else Some b),
      encode = (\<lambda>img fmt kw. Raised (Some [0]))\<rparr>"

definition example_fetch :: "string \<Rightarrow> bytes option" where
  "example_fetch url = (if url = ''https://a/1.jpg'' then Some [1, 2, 3] else None)"

definition download_disk :: fsys where
  "download_disk =
     \<lparr>files = [], dirs = [[''images4''], [''images4'', ''Cats'']], log = [], now = 0\<rparr>"

definition one_image :: fsys where
  "one_image =
     \<lparr>files = [([''sourceImages'', ''a.png''], \<lparr>content = [1, 2, 3], mtime = 7\<rparr>)],
      dirs = [[''sourceImages'']], log = [], now = 9\<rparr>"

text \<open>The same with a temporary file left in the output directory by an earlier run.\<close>

definition stale_tmp :: fsys where
  "stale_tmp =
     \<lparr>files = [([''sourceImages'', ''a.png''], \<lparr>content = [1, 2, 3], mtime = 7\<rparr>),
               ([''compressedImages'', ''a.png.tmp''], \<lparr>content = [8, 8], mtime = 2\<rparr>)],
      dirs = [[''sourceImages''], [''compressedImages'']], log = [], now = 9\<rparr>"

definition big_jpeg :: fsys where
  "big_jpeg =
     \<lparr>files = [([''sourceImages'', ''big.jpg''],
                \<lparr>content = replicate (2 * 1024 * 1024) 0, mtime = 1\<rparr>)],
      dirs = [[''sourceImages'']], log = [], now = 9\<rparr>"

definition bad_tree :: fsys where
  "bad_tree =
     \<lparr>files = [([''sourceImages'', ''bad.png''], \<lparr>content = [], mtime = 7\<rparr>)],
      dirs = [[''sourceImages'']], log = [], now = 9\<rparr>"

definition small_tree :: fsys where
  "small_tree =
     \<lparr>files = [([''sourceImages'', ''a.png''], \<lparr>content = [1, 2, 3], mtime = 7\<rparr>),
               ([''sourceImages'', ''sub'', ''notes.TXT''], \<lparr>content = [4, 5], mtime = 3\<rparr>)],
      dirs = [[''sourceImages''], [''sourceImages'', ''sub'']], log = [], now = 9\<rparr>"

text \<open>
  A tree in which the image \<open>a.PNG\<close> goes to \<open>a.png\<close>, the name of a directory of the
  tree.
\<close>

definition clash_tree :: fsys where
  "clash_tree =
     \<lparr>files = [([''sourceImages'', ''a.PNG''], \<lparr>content = [1, 2, 3], mtime = 7\<rparr>),
               ([''sourceImages'', ''a.png'', ''n.txt''], \<lparr>content = [4, 5], mtime = 3\<rparr>)],
      dirs = [[''sourceImages''], [''sourceImages'', ''a.png'']], log = [], now = 9\<rparr>"

section \<open>Facts about the file operations\<close>

lemma lookup_logging [simp]: "lookup (logging l m s) p = lookup s p"
  by (simp add: lookup_def logging_def)

lemma now_logging [simp]: "now (logging l m s) = now s"
  by (simp add: logging_def)

lemma files_logging [simp]: "files (logging l m s) = files s"
  by (simp add: logging_def)

lemma dirs_logging [simp]: "dirs (logging l m s) = dirs s"
  by (simp add: logging_def)

lemma isdir_logging [simp]: "isdir (logging l m s) p = isdir s p"
  by (simp add: isdir_def)

lemma log_logging [simp]: "log (logging l m s) = log s @ [(l, m)]"
  by (simp add: logging_def)

lemma lookup_write_file [simp]:
  "lookup (write_file p f s) q = (if q = p then Some f else lookup s q)"
  by (simp add: lookup_def write_file_def update_conv')

lemma now_write_file [simp]: "now (write_file p f s) = now s"
  by (simp add: write_file_def)

lemma log_write_file [simp]: "log (write_file p f s) = log s"
  by (simp add: write_file_def)

lemma dirs_write_file [simp]: "dirs (write_file p f s) = dirs s"
  by (simp add: write_file_def)

lemma isdir_write_file [simp]: "isdir (write_file p f s) d = isdir s d"
  by (simp add: isdir_def)

lemma lookup_files_upd [simp]: "lookup (s\<lparr>files := xs\<rparr>) q = map_of xs q"
  by (simp add: lookup_def)

lemma isdir_files_upd [simp]: "isdir (s\<lparr>files := xs\<rparr>) d = isdir s d"
  by (simp add: isdir_def)

lemma lookup_dirs_upd [simp]: "lookup (s\<lparr>dirs := d\<rparr>) q = lookup s q"
  by (simp add: lookup_def)

lemma map_of_files [simp]: "map_of (files s) = lookup s"
  by (rule ext) (simp add: lookup_def)

lemma lookup_None_iff: "(lookup s q = None) = (q \<notin> fst ` set (files s))"
  by (simp add: lookup_def map_of_eq_None_iff del: map_of_files)

lemma getsize_Some [simp]: "lookup s p = Some f \<Longrightarrow> getsize s p = Inr (length (content f))"
  by (simp add: getsize_def)

lemma write_error_None_iff:
  "write_error s p = None \<longleftrightarrow> p \<noteq> [] \<and> \<not> isdir s p \<and> (dirname p = [] \<or> isdir s (dirname p))"
  by (simp add: write_error_def)

lemma write_error_dirs: "dirs s1 = dirs s \<Longrightarrow> (write_error s1 p = None) = (write_error s p = None)"
  by (simp add: write_error_None_iff isdir_def)

lemma add_suffix_neq [simp]: "suf \<noteq> [] \<Longrightarrow> add_suffix p suf \<noteq> p"
  by (cases p rule: rev_cases) (auto simp: add_suffix_def)

lemma tmp_neq: "add_suffix out ''.tmp'' \<noteq> out"
  by simp

lemma tmp_neq' [simp]: "out \<noteq> add_suffix out ''.tmp''"
  using tmp_neq [of out] by metis

lemma add_suffix_Nil_iff [simp]: "add_suffix p suf \<noteq> []"
  by (simp add: add_suffix_def)




text \<open>What \<open>os.makedirs\<close> leaves when it returns.\<close>

lemma makedirs_keeps:
  "makedirs p s = Inr s1 \<Longrightarrow> files s1 = files s \<and> log s1 = log s \<and> now s1 = now s"
  by (auto simp: makedirs_def split: if_splits)

lemma lookup_makedirs: "makedirs p s = Inr s1 \<Longrightarrow> lookup s1 q = lookup s q"
  using makedirs_keeps [of p s s1] by (simp add: lookup_def del: map_of_files)


lemma makedirs_Inr_iff:
  "(\<exists>s1. makedirs p s = Inr s1) \<longleftrightarrow> p \<noteq> [] \<and> (\<forall>d. prefix d p \<longrightarrow> lookup s d = None)"
  by (auto simp: makedirs_def)

lemma makedirs_again:
  assumes "p \<noteq> []" "\<forall>d. prefix d p \<longrightarrow> lookup s d = None"
    "\<forall>d. prefix d p \<longrightarrow> d \<noteq> [] \<longrightarrow> isdir s d"
  shows "makedirs p s = Inr s"
proof -
  have "filter (\<lambda>d. d \<noteq> [] \<and> d \<notin> set (dirs s)) (prefixes p) = []"
    using assms(3) by (auto simp: filter_empty_conv isdir_def)
  then show ?thesis
    using assms(1,2) by (simp add: makedirs_def)
qed

lemma save_kwargs_fst: "fst (save_kwargs cfg fmt n s) = fst (save_kwargs cfg fmt n s')"
  by (simp add: save_kwargs_def Let_def)

lemma save_kwargs_snd [simp]:
  "lookup (snd (save_kwargs cfg fmt n s)) p = lookup s p"
  "now (snd (save_kwargs cfg fmt n s)) = now s"
  "dirs (snd (save_kwargs cfg fmt n s)) = dirs s"
  "isdir (snd (save_kwargs cfg fmt n s)) d = isdir s d"
  by (simp_all add: save_kwargs_def Let_def)

section \<open>Facts about compress_image_file\<close>







lemma img_save_failed_fresh:
  "img_save c img p fmt kw s = (Inl e, s1) \<Longrightarrow> lookup s p = None \<Longrightarrow> s1 = s"
  by (auto simp: img_save_def split: save_result.splits option.splits if_splits)

lemma try_compress_save_call:
  assumes "lookup s inp = Some f" "decode c (content f) = Some img"
    "makedirs (dirname out) s = Inr s1" "resolve_format cfg inp = Inr (fmt, ext)"
  shows "try_compress cfg c inp out s =
           (case img_save c img (add_suffix out ''.tmp'') fmt
                   (fst (save_kwargs cfg fmt (length (content f)) s))
                   (snd (save_kwargs cfg fmt (length (content f)) s1)) of
              (Inl e, s3) \<Rightarrow> (Inl e, s3)
            | (Inr u, s3) \<Rightarrow>
                keep_smaller inp out (add_suffix out ''.tmp'') (length (content f)) s3)"
proof -
  have k: "fst (save_kwargs cfg fmt (length (content f)) s1) =
           fst (save_kwargs cfg fmt (length (content f)) s)"
    by (rule save_kwargs_fst)
  have l: "lookup s1 inp = Some f"
    using assms(1,3) by (simp add: lookup_makedirs)
  obtain kw s2 where p: "save_kwargs cfg fmt (length (content f)) s1 = (kw, s2)"
    by (cases "save_kwargs cfg fmt (length (content f)) s1")
  show ?thesis
    using assms k l p
    by (simp add: try_compress_def Image_open_def Let_def)
qed








section \<open>The claims about the compression pipeline\<close>

lemma ex_png: "splitext ''a.png'' = (''a'', ''.png'')"
  by (simp add: splitext_def)

lemma ex_resolve:
  "resolve_format source_config [''sourceImages'', ''a.png''] = Inr (''PNG'', ''.png'')"
  by (simp add: resolve_format_def source_config_def configured_def basename_def ex_png
      lower_def lower_char_def EXT_TO_FORMAT_def)







lemma lcp_append: "longest_common_prefix (start @ r) start = start"
  by (induction start) auto

lemma relpath_under: "relpath (start @ r) start = r"
  by (simp add: relpath_def Let_def lcp_append)

lemma splitext_cases: "splitext p = (p, []) \<or> (\<exists>n. splitext p = (take n p, drop n p))"
proof (cases "length (takeWhile (\<lambda>c. c \<noteq> CHR ''.'') (rev p)) = length p")
  case True
  then have "splitext p = (p, [])"
    unfolding splitext_def Let_def by (rule if_P)
  then show ?thesis ..
next
  case False
  let ?n = "length p - length (takeWhile (\<lambda>c. c \<noteq> CHR ''.'') (rev p)) - 1"
  have e: "splitext p = (if \<exists>c \<in> set (take ?n p). c \<noteq> CHR ''.''
        then (take ?n p, drop ?n p) else (p, []))"
    unfolding splitext_def Let_def using False by (rule if_not_P)
  show ?thesis
  proof (cases "\<exists>c \<in> set (take ?n p). c \<noteq> CHR ''.''")
    case True
    then have "splitext p = (take ?n p, drop ?n p)"
      unfolding e by (rule if_P)
    then show ?thesis by blast
  next
    case False
    then have "splitext p = (p, [])"
      unfolding e by (rule if_not_P)
    then show ?thesis ..
  qed
qed

lemma splitext_append: "fst (splitext p) @ snd (splitext p) = p"
  using splitext_cases [of p] by auto

lemma dest_dir_under: "dest_dir cfg (SOURCE_DIR cfg # ds @ [name]) = OUTPUT_DIR cfg # ds"
  using relpath_under [of "[SOURCE_DIR cfg]" ds]
  by (simp add: dest_dir_def dirname_def butlast_append)

lemma basename_snoc [simp]: "basename (p @ [name]) = name" "basename (x # ds @ [name]) = name"
  by (simp_all add: basename_def)

lemma is_image_under:
  "is_image (x # ds @ [name]) = (lower (snd (splitext name)) \<in> IMAGE_EXTENSIONS)"
  by (simp add: is_image_def)

text \<open>
  C5, as amended. The destination mirrors the source's relative path under the output
  root. The name keeps its stem; its extension is the target format's when a target
  format is configured and the file is an image, the original extension in lower case
  when none is configured and the file is an image, and the original extension, as it
  is written, for every other file.
\<close>

theorem dest_path_mirrors:
  "dest_path cfg (SOURCE_DIR cfg # ds @ [name]) =
     OUTPUT_DIR cfg # ds @
       [fst (splitext name) @
        (if lower (snd (splitext name)) \<in> IMAGE_EXTENSIONS then
           (case configured (TARGET_FORMAT cfg) of
              Some tf \<Rightarrow> ''.'' @ lower tf
            | None \<Rightarrow> lower (snd (splitext name)))
         else snd (splitext name))]"
  by (simp add: dest_path_def dest_dir_under split_beta Let_def)

text \<open>
  C5 as stated fails: with no target format configured, \<open>A.JPG\<close> goes to \<open>A.jpg\<close>.
\<close>

theorem dest_path_extension_counterexample:
  "configured (TARGET_FORMAT source_config) = None \<and>
   dest_path source_config [''sourceImages'', ''A.JPG''] = [''compressedImages'', ''A.jpg''] \<and>
   snd (splitext ''A.jpg'') \<noteq> snd (splitext ''A.JPG'')"
proof -
  have e: "splitext ''A.JPG'' = (''A'', ''.JPG'')" "splitext ''A.jpg'' = (''A'', ''.jpg'')"
    by (simp_all add: splitext_def)
  have l: "lower ''.JPG'' = ''.jpg''"
    by (simp add: lower_def lower_char_def)
  have i: "''.jpg'' \<in> IMAGE_EXTENSIONS"
    by (simp add: IMAGE_EXTENSIONS_def)
  have c: "configured (TARGET_FORMAT source_config) = None"
    "SOURCE_DIR source_config = ''sourceImages''" "OUTPUT_DIR source_config = ''compressedImages''"
    by (simp_all add: configured_def source_config_def)
  have "dest_path source_config (SOURCE_DIR source_config # [] @ [''A.JPG'']) =
          [''compressedImages'', ''A.jpg'']"
    unfolding dest_path_mirrors by (simp add: e l i c)
  then show ?thesis
    using c e by simp
qed

lemma ex_txt: "splitext ''notes.TXT'' = (''notes'', ''.TXT'')"
  by (simp add: splitext_def)

lemma ex_txt_opaque: "lower ''.TXT'' \<notin> IMAGE_EXTENSIONS"
  by (simp add: lower_def lower_char_def IMAGE_EXTENSIONS_def)

theorem dest_path_mirrors_witness:
  "dest_path (source_config\<lparr>TARGET_FORMAT := Some ''webp''\<rparr>) [''sourceImages'', ''sub'', ''a.png'']
     = [''compressedImages'', ''sub'', ''a.webp''] \<and>
   dest_path source_config [''sourceImages'', ''sub'', ''a.png'']
     = [''compressedImages'', ''sub'', ''a.png''] \<and>
   dest_path source_config [''sourceImages'', ''sub'', ''notes.TXT'']
     = [''compressedImages'', ''sub'', ''notes.TXT'']"
proof -
  let ?w = "source_config\<lparr>TARGET_FORMAT := Some ''webp''\<rparr>"
  have c: "SOURCE_DIR ?w = ''sourceImages''" "OUTPUT_DIR ?w = ''compressedImages''"
    "configured (Some ''webp'') = Some ''webp''"
    "SOURCE_DIR source_config = ''sourceImages''"
    "OUTPUT_DIR source_config = ''compressedImages''"
    "configured (TARGET_FORMAT source_config) = None"
    by (simp_all add: source_config_def configured_def)
  have l: "lower ''.png'' = ''.png''" "lower ''webp'' = ''webp''"
    by (simp_all add: lower_def lower_char_def)
  have i: "''.png'' \<in> IMAGE_EXTENSIONS"
    by (simp add: IMAGE_EXTENSIONS_def)
  have "dest_path ?w (SOURCE_DIR ?w # [''sub''] @ [''a.png'']) =
          [''compressedImages'', ''sub'', ''a.webp'']"
    unfolding dest_path_mirrors by (simp add: c ex_png l i)
  moreover have "dest_path source_config (SOURCE_DIR source_config # [''sub''] @ [''a.png'']) =
          [''compressedImages'', ''sub'', ''a.png'']"
    unfolding dest_path_mirrors by (simp add: c ex_png l i)
  moreover have "dest_path source_config (SOURCE_DIR source_config # [''sub''] @ [''notes.TXT'']) =
          [''compressedImages'', ''sub'', ''notes.TXT'']"
    unfolding dest_path_mirrors by (simp add: c ex_txt ex_txt_opaque)
  ultimately show ?thesis
    by (simp add: c)
qed

text \<open>
  C6. For the lossy formats WEBP and JPEG the only save parameter is the quality: the
  base quality when the original size does not exceed the threshold, and
  \<open>max 1 (QUALITY - AGGRESSIVE_DROP)\<close> when it does; and that is the quality with which
  \<open>compress_image_file\<close> calls \<open>img.save\<close> on the temporary path.
\<close>

theorem lossy_quality_tier:
  assumes "fmt = ''WEBP'' \<or> fmt = ''JPEG''"
  shows "fst (save_kwargs cfg fmt orig_size s) =
           [quality (if of_nat orig_size \<le> THRESHOLD cfg then QUALITY cfg
                     else max 1 (QUALITY cfg - AGGRESSIVE_DROP cfg))]
       \<and> (\<forall>f img s1 ext.
             lookup s inp = Some f \<and> decode c (content f) = Some img \<and>
             makedirs (dirname out) s = Inr s1 \<and> resolve_format cfg inp = Inr (fmt, ext) \<longrightarrow>
             try_compress cfg c inp out s =
               (case img_save c img (add_suffix out ''.tmp'') fmt
                       [quality (if of_nat (length (content f)) \<le> THRESHOLD cfg then QUALITY cfg
                                 else max 1 (QUALITY cfg - AGGRESSIVE_DROP cfg))]
                       (snd (save_kwargs cfg fmt (length (content f)) s1)) of
                  (Inl e, s3) \<Rightarrow> (Inl e, s3)
                | (Inr u, s3) \<Rightarrow>
                    keep_smaller inp out (add_suffix out ''.tmp'') (length (content f)) s3))"
proof -
  have q: "fst (save_kwargs cfg fmt n s) =
           [quality (if of_nat n \<le> THRESHOLD cfg then QUALITY cfg
                     else max 1 (QUALITY cfg - AGGRESSIVE_DROP cfg))]" for n
    using assms by (auto simp: save_kwargs_def Let_def)
  show ?thesis
    using q try_compress_save_call [of s inp _ c _ out _ cfg fmt] by auto
qed

lemma ex_jpg: "splitext ''big.jpg'' = (''big'', ''.jpg'')"
  by (simp add: splitext_def)

lemma ex_resolve_jpg:
  "resolve_format source_config [''sourceImages'', ''big.jpg''] = Inr (''JPEG'', ''.jpg'')"
  by (simp add: resolve_format_def source_config_def configured_def basename_def ex_jpg
      lower_def lower_char_def EXT_TO_FORMAT_def)

theorem lossy_quality_tier_witness:
  "fst (save_kwargs source_config ''JPEG'' (2 * 1024 * 1024) big_jpeg) = [quality 65] \<and>
   fst (save_kwargs source_config ''JPEG'' (500 * 1024) big_jpeg) = [quality 85] \<and>
   (\<exists>s1. try_compress source_config truncating_codec [''sourceImages'', ''big.jpg'']
            [''compressedImages'', ''big.jpg''] big_jpeg =
          (case img_save truncating_codec (replicate (2 * 1024 * 1024) 0)
                  [''compressedImages'', ''big.jpg.tmp''] ''JPEG'' [quality 65] s1 of
             (Inl e, s3) \<Rightarrow> (Inl e, s3)
           | (Inr u, s3) \<Rightarrow>
               keep_smaller [''sourceImages'', ''big.jpg''] [''compressedImages'', ''big.jpg'']
                 [''compressedImages'', ''big.jpg.tmp''] (2 * 1024 * 1024) s3))"
proof -
  have j: "''JPEG'' = ''WEBP'' \<or> ''JPEG'' = ''JPEG''"
    by simp
  have t: "THRESHOLD source_config = 6291456 / 5" "QUALITY source_config = 85"
    "AGGRESSIVE_DROP source_config = 20"
    by (simp_all add: source_config_def)
  have a: "fst (save_kwargs source_config ''JPEG'' (2 * 1024 * 1024) big_jpeg) = [quality 65]"
    using lossy_quality_tier [OF j, of source_config "2 * 1024 * 1024" big_jpeg, THEN conjunct1]
    by (simp add: t)
  have b: "fst (save_kwargs source_config ''JPEG'' (500 * 1024) big_jpeg) = [quality 85]"
    using lossy_quality_tier [OF j, of source_config "500 * 1024" big_jpeg, THEN conjunct1]
    by (simp add: t)
  let ?f = "\<lparr>content = replicate (2 * 1024 * 1024) 0, mtime = 1\<rparr> :: regfile"
  have l: "lookup big_jpeg [''sourceImages'', ''big.jpg''] = Some ?f"
    by (simp add: big_jpeg_def lookup_def del: map_of_files)
  have d: "decode truncating_codec (content ?f) = Some (replicate (2 * 1024 * 1024) 0)"
    by (simp add: truncating_codec_def)
  have "\<exists>s1. makedirs (dirname [''compressedImages'', ''big.jpg'']) big_jpeg = Inr s1"
    by (auto simp: makedirs_Inr_iff dirname_def prefix_Cons big_jpeg_def lookup_def
        simp del: map_of_files)
  then obtain s1 where m: "makedirs (dirname [''compressedImages'', ''big.jpg'']) big_jpeg = Inr s1"
    by blast
  have x: "add_suffix [''compressedImages'', ''big.jpg''] ''.tmp'' =
           [''compressedImages'', ''big.jpg.tmp'']"
    by (simp add: add_suffix_def)
  have "try_compress source_config truncating_codec [''sourceImages'', ''big.jpg'']
            [''compressedImages'', ''big.jpg''] big_jpeg =
          (case img_save truncating_codec (replicate (2 * 1024 * 1024) 0)
                  [''compressedImages'', ''big.jpg.tmp''] ''JPEG'' [quality 65]
                  (snd (save_kwargs source_config ''JPEG'' (2 * 1024 * 1024) s1)) of
             (Inl e, s3) \<Rightarrow> (Inl e, s3)
           | (Inr u, s3) \<Rightarrow>
               keep_smaller [''sourceImages'', ''big.jpg''] [''compressedImages'', ''big.jpg'']
                 [''compressedImages'', ''big.jpg.tmp''] (2 * 1024 * 1024) s3)"
    using lossy_quality_tier [OF j, of source_config 0 big_jpeg "[''sourceImages'', ''big.jpg'']"
        truncating_codec "[''compressedImages'', ''big.jpg'']", THEN conjunct2, rule_format,
        of ?f "replicate (2 * 1024 * 1024) 0" s1 "''.jpg''"]
      l d m ex_resolve_jpg
    by (simp add: t x split: prod.splits sum.splits)
  then show ?thesis
    using a b by blast
qed

lemma write_error_no_ValueError [simp]: "write_error s p \<noteq> Some (ValueError m)"
  by (simp add: write_error_def)

lemma read_error_no_ValueError [simp]: "read_error s p \<noteq> ValueError m"
  by (simp add: read_error_def)

lemma makedirs_no_ValueError [simp]: "makedirs p s \<noteq> Inl (ValueError m)"
  by (simp add: makedirs_def)

lemma getsize_no_ValueError [simp]: "getsize s p \<noteq> Inl (ValueError m)"
  by (simp add: getsize_def split: option.splits)

lemma os_replace_no_ValueError [simp]: "os_replace src dst s \<noteq> Inl (ValueError m)"
  using write_error_no_ValueError [of s dst m]
  by (auto simp: os_replace_def split: option.splits)

lemma copy2_no_ValueError [simp]: "copy2 src dst s \<noteq> Inl (ValueError m)"
  using write_error_no_ValueError [of s "copy2_target s src dst" m]
  by (auto simp: copy2_def split: option.splits)

lemma os_remove_no_ValueError [simp]: "os_remove p s \<noteq> Inl (ValueError m)"
  by (simp add: os_remove_def split: option.splits)

lemma Image_open_no_ValueError [simp]: "Image_open c s p \<noteq> Inl (ValueError m)"
  by (simp add: Image_open_def split: option.splits)

lemma keep_smaller_no_ValueError:
  "keep_smaller inp out tmp n s \<noteq> (Inl (ValueError m), s1)"
proof (cases "getsize s tmp")
  case (Inl e)
  then show ?thesis
    using getsize_no_ValueError [of s tmp m] by (auto simp: keep_smaller_def)
next
  case (Inr comp_size)
  show ?thesis
  proof (cases "comp_size < n")
    case True
    then show ?thesis
      using Inr os_replace_no_ValueError [of tmp out s m]
      by (cases "os_replace tmp out s") (auto simp: keep_smaller_def)
  next
    case False
    show ?thesis
    proof (cases "copy2 inp out s")
      case (Inl e)
      then show ?thesis
        using Inr False copy2_no_ValueError [of inp out s m] by (auto simp: keep_smaller_def)
    next
      case c: (Inr s2)
      show ?thesis
        using Inr False c os_remove_no_ValueError [of tmp s2 m]
        by (cases "os_remove tmp s2") (auto simp: keep_smaller_def)
    qed
  qed
qed

lemma img_save_no_ValueError:
  "img_save c img p fmt kw s \<noteq> (Inl (ValueError m), s1)"
  using write_error_no_ValueError [of s p m]
  by (auto simp: img_save_def split: save_result.splits option.splits if_splits)

lemma try_compress_no_ValueError:
  assumes "resolve_format cfg inp = Inr x"
  shows "try_compress cfg c inp out s \<noteq> (Inl (ValueError m), s1)"
proof (cases "Image_open c s inp")
  case (Inl e)
  then show ?thesis
    using Image_open_no_ValueError [of c s inp m] by (auto simp: try_compress_def)
next
  case i: (Inr img)
  show ?thesis
  proof (cases "makedirs (dirname out) s")
    case (Inl e)
    then show ?thesis
      using i makedirs_no_ValueError [of "dirname out" s m] by (auto simp: try_compress_def)
  next
    case d: (Inr s0)
    obtain fmt ext where x: "x = (fmt, ext)"
      by (cases x)
    show ?thesis
    proof (cases "getsize s0 inp")
      case (Inl e)
      then show ?thesis
        using i d assms x getsize_no_ValueError [of s0 inp m] by (auto simp: try_compress_def)
    next
      case g: (Inr n)
      obtain kw s2 where k: "save_kwargs cfg fmt n s0 = (kw, s2)"
        by (cases "save_kwargs cfg fmt n s0")
      obtain r s3 where v: "img_save c img (add_suffix out ''.tmp'') fmt kw s2 = (r, s3)"
        by (cases "img_save c img (add_suffix out ''.tmp'') fmt kw s2")
      show ?thesis
        using i d assms x g k v img_save_no_ValueError [of c img _ fmt kw s2 m]
          keep_smaller_no_ValueError [of inp out _ n s3 m]
        by (cases r) (auto simp: try_compress_def)
    qed
  qed
qed

text \<open>
  C10. Every recognized image extension has an entry in \<open>EXT_TO_FORMAT\<close>. So when no
  target format is configured, \<open>compress_image_file\<close> resolves a format for every file
  that the walker dispatches as an image, and its \<open>try\<close> body never raises the
  \<open>ValueError\<close> of the unsupported format.
\<close>

theorem image_extensions_have_formats:
  "(\<forall>e \<in> IMAGE_EXTENSIONS. EXT_TO_FORMAT e \<noteq> None) \<and>
   (configured (TARGET_FORMAT cfg) = None \<and> is_image src \<longrightarrow>
      (\<exists>fmt. resolve_format cfg src = Inr (fmt, lower (snd (splitext (basename src))))) \<and>
      (\<forall>m s1. try_compress cfg c src out s \<noteq> (Inl (ValueError m), s1)))"
proof -
  have a: "\<forall>e \<in> IMAGE_EXTENSIONS. EXT_TO_FORMAT e \<noteq> None"
    by (simp add: IMAGE_EXTENSIONS_def EXT_TO_FORMAT_def)
  have b: "\<exists>fmt. resolve_format cfg src = Inr (fmt, lower (snd (splitext (basename src))))"
    if c: "configured (TARGET_FORMAT cfg) = None" and i: "is_image src"
  proof -
    obtain fmt where "EXT_TO_FORMAT (lower (snd (splitext (basename src)))) = Some fmt"
      using a i by (auto simp: is_image_def)
    then show ?thesis
      using c by (simp add: resolve_format_def)
  qed
  show ?thesis
    using a b try_compress_no_ValueError [of cfg src _ c out s] by blast
qed

theorem image_extensions_have_formats_witness:
  "configured (TARGET_FORMAT source_config) = None \<and> is_image [''sourceImages'', ''a.png''] \<and>
   resolve_format source_config [''sourceImages'', ''a.png''] = Inr (''PNG'', ''.png'') \<and>
   try_compress source_config padding_codec [''sourceImages'', ''a.png'']
     [''compressedImages'', ''a.png''] one_image \<noteq> (Inl (ValueError ''''), one_image)"
proof -
  have c: "configured (TARGET_FORMAT source_config) = None"
    by (simp add: configured_def source_config_def)
  have i: "is_image [''sourceImages'', ''a.png'']"
    by (simp add: is_image_def basename_def ex_png lower_def lower_char_def IMAGE_EXTENSIONS_def)
  show ?thesis
    using image_extensions_have_formats [of source_config "[''sourceImages'', ''a.png'']"
        padding_codec "[''compressedImages'', ''a.png'']" one_image] c i ex_resolve
    by simp
qed


end
